theory Spec2Isabelle
  imports Main "HOL-Library.Word"
begin

section \<open>Strings\<close>

text \<open>
  A JavaScript string is a sequence of 16-bit code units (UTF-16, possibly with
  unpaired surrogates). An ASCII literal of the source is written \<open>js ''...''\<close>.
\<close>

type_synonym code_unit = "16 word"
type_synonym jsstring = "code_unit list"

definition js :: "string \<Rightarrow> jsstring" where
  "js s = map (\<lambda>c. word_of_nat (of_char c)) s"


definition is_leading_surrogate :: "code_unit \<Rightarrow> bool" where
  "is_leading_surrogate u = (0xD800 \<le> unat u \<and> unat u \<le> 0xDBFF)"

definition is_trailing_surrogate :: "code_unit \<Rightarrow> bool" where
  "is_trailing_surrogate u = (0xDC00 \<le> unat u \<and> unat u \<le> 0xDFFF)"

definition UTF16SurrogatePairToCodePoint :: "code_unit \<Rightarrow> code_unit \<Rightarrow> nat" where
  "UTF16SurrogatePairToCodePoint lead trail =
     (unat lead - 0xD800) * 0x400 + (unat trail - 0xDC00) + 0x10000"

text \<open>
  \<open>StringToCodePoints\<close> (ECMA-262): a leading surrogate directly followed by a trailing
  one is one supplementary code point; any other code unit, an unpaired surrogate
  included, is the code point of its own value.
\<close>

fun StringToCodePoints :: "jsstring \<Rightarrow> nat list" where
  "StringToCodePoints [] = []"
| "StringToCodePoints [u] = [unat u]"
| "StringToCodePoints (u # v # s) =
     (if is_leading_surrogate u \<and> is_trailing_surrogate v
      then UTF16SurrogatePairToCodePoint u v # StringToCodePoints s
      else unat u # StringToCodePoints (v # s))"

definition UTF16EncodeCodePoint :: "nat \<Rightarrow> jsstring" where
  "UTF16EncodeCodePoint cp =
     (if cp \<le> 0xFFFF then [word_of_nat cp]
      else [word_of_nat ((cp - 0x10000) div 0x400 + 0xD800),
            word_of_nat ((cp - 0x10000) mod 0x400 + 0xDC00)])"

definition CodePointsToString :: "nat list \<Rightarrow> jsstring" where
  "CodePointsToString cps = concat (map UTF16EncodeCodePoint cps)"

definition is_surrogate_cp :: "nat \<Rightarrow> bool" where
  "is_surrogate_cp c = (0xD800 \<le> c \<and> c \<le> 0xDFFF)"

text \<open>\<open>String.prototype.isWellFormed\<close>: no unpaired surrogate.\<close>

definition isWellFormed :: "jsstring \<Rightarrow> bool" where
  "isWellFormed s = list_all (\<lambda>c. \<not> is_surrogate_cp c) (StringToCodePoints s)"

subsection \<open>Unicode case data\<close>

text \<open>
  The lowercase mappings of the Unicode Character Database, version 14.0.0
  (\<open>UnicodeData.txt\<close> and the unconditional entries of \<open>SpecialCasing.txt\<close>). A rule
  \<open>(first, last, step, image)\<close> maps the code points \<open>first, first + step, \<dots>\<close> up to
  \<open>last\<close> to \<open>image, image + step, \<dots>\<close>; the rules are in ascending order. U+0130 is the
  one code point whose lowercase is two code points; every code point without a rule
  is its own lowercase.
\<close>

type_synonym case_rule = "nat \<times> nat \<times> nat \<times> nat"

definition lowercase_rules :: "case_rule list" where
  "lowercase_rules =
    [(0x41, 0x5A, 1, 0x61), (0xC0, 0xD6, 1, 0xE0), (0xD8, 0xDE, 1, 0xF8),
     (0x100, 0x12E, 2, 0x101), (0x132, 0x136, 2, 0x133), (0x139, 0x147, 2, 0x13A),
     (0x14A, 0x176, 2, 0x14B), (0x178, 0x178, 2, 0xFF), (0x179, 0x17D, 2, 0x17A),
     (0x181, 0x181, 2, 0x253), (0x182, 0x184, 2, 0x183), (0x186, 0x186, 2, 0x254),
     (0x187, 0x187, 2, 0x188), (0x189, 0x18A, 1, 0x256), (0x18B, 0x18B, 2, 0x18C),
     (0x18E, 0x18E, 2, 0x1DD), (0x18F, 0x18F, 2, 0x259), (0x190, 0x190, 2, 0x25B),
     (0x191, 0x191, 2, 0x192), (0x193, 0x193, 2, 0x260), (0x194, 0x194, 2, 0x263),
     (0x196, 0x196, 2, 0x269), (0x197, 0x197, 2, 0x268), (0x198, 0x198, 2, 0x199),
     (0x19C, 0x19C, 2, 0x26F), (0x19D, 0x19D, 2, 0x272), (0x19F, 0x19F, 2, 0x275),
     (0x1A0, 0x1A4, 2, 0x1A1), (0x1A6, 0x1A6, 2, 0x280), (0x1A7, 0x1A7, 2, 0x1A8),
     (0x1A9, 0x1A9, 2, 0x283), (0x1AC, 0x1AC, 2, 0x1AD), (0x1AE, 0x1AE, 2, 0x288),
     (0x1AF, 0x1AF, 2, 0x1B0), (0x1B1, 0x1B2, 1, 0x28A), (0x1B3, 0x1B5, 2, 0x1B4),
     (0x1B7, 0x1B7, 2, 0x292), (0x1B8, 0x1B8, 2, 0x1B9), (0x1BC, 0x1BC, 2, 0x1BD),
     (0x1C4, 0x1C4, 2, 0x1C6), (0x1C5, 0x1C5, 2, 0x1C6), (0x1C7, 0x1C7, 2, 0x1C9),
     (0x1C8, 0x1C8, 2, 0x1C9), (0x1CA, 0x1CA, 2, 0x1CC), (0x1CB, 0x1DB, 2, 0x1CC),
     (0x1DE, 0x1EE, 2, 0x1DF), (0x1F1, 0x1F1, 2, 0x1F3), (0x1F2, 0x1F4, 2, 0x1F3),
     (0x1F6, 0x1F6, 2, 0x195), (0x1F7, 0x1F7, 2, 0x1BF), (0x1F8, 0x21E, 2, 0x1F9),
     (0x220, 0x220, 2, 0x19E), (0x222, 0x232, 2, 0x223), (0x23A, 0x23A, 2, 0x2C65),
     (0x23B, 0x23B, 2, 0x23C), (0x23D, 0x23D, 2, 0x19A), (0x23E, 0x23E, 2, 0x2C66),
     (0x241, 0x241, 2, 0x242), (0x243, 0x243, 2, 0x180), (0x244, 0x244, 2, 0x289),
     (0x245, 0x245, 2, 0x28C), (0x246, 0x24E, 2, 0x247), (0x370, 0x372, 2, 0x371),
     (0x376, 0x376, 2, 0x377), (0x37F, 0x37F, 2, 0x3F3), (0x386, 0x386, 2, 0x3AC),
     (0x388, 0x38A, 1, 0x3AD), (0x38C, 0x38C, 2, 0x3CC), (0x38E, 0x38F, 1, 0x3CD),
     (0x391, 0x3A1, 1, 0x3B1), (0x3A3, 0x3AB, 1, 0x3C3), (0x3CF, 0x3CF, 2, 0x3D7),
     (0x3D8, 0x3EE, 2, 0x3D9), (0x3F4, 0x3F4, 2, 0x3B8), (0x3F7, 0x3F7, 2, 0x3F8),
     (0x3F9, 0x3F9, 2, 0x3F2), (0x3FA, 0x3FA, 2, 0x3FB), (0x3FD, 0x3FF, 1, 0x37B),
     (0x400, 0x40F, 1, 0x450), (0x410, 0x42F, 1, 0x430), (0x460, 0x480, 2, 0x461),
     (0x48A, 0x4BE, 2, 0x48B), (0x4C0, 0x4C0, 2, 0x4CF), (0x4C1, 0x4CD, 2, 0x4C2),
     (0x4D0, 0x52E, 2, 0x4D1), (0x531, 0x556, 1, 0x561), (0x10A0, 0x10C5, 1, 0x2D00),
     (0x10C7, 0x10C7, 2, 0x2D27), (0x10CD, 0x10CD, 2, 0x2D2D), (0x13A0, 0x13EF, 1, 0xAB70),
     (0x13F0, 0x13F5, 1, 0x13F8), (0x1C90, 0x1CBA, 1, 0x10D0), (0x1CBD, 0x1CBF, 1, 0x10FD),
     (0x1E00, 0x1E94, 2, 0x1E01), (0x1E9E, 0x1E9E, 2, 0xDF), (0x1EA0, 0x1EFE, 2, 0x1EA1),
     (0x1F08, 0x1F0F, 1, 0x1F00), (0x1F18, 0x1F1D, 1, 0x1F10), (0x1F28, 0x1F2F, 1, 0x1F20),
     (0x1F38, 0x1F3F, 1, 0x1F30), (0x1F48, 0x1F4D, 1, 0x1F40), (0x1F59, 0x1F5F, 2, 0x1F51),
     (0x1F68, 0x1F6F, 1, 0x1F60), (0x1F88, 0x1F8F, 1, 0x1F80), (0x1F98, 0x1F9F, 1, 0x1F90),
     (0x1FA8, 0x1FAF, 1, 0x1FA0), (0x1FB8, 0x1FB9, 1, 0x1FB0), (0x1FBA, 0x1FBB, 1, 0x1F70),
     (0x1FBC, 0x1FBC, 2, 0x1FB3), (0x1FC8, 0x1FCB, 1, 0x1F72), (0x1FCC, 0x1FCC, 2, 0x1FC3),
     (0x1FD8, 0x1FD9, 1, 0x1FD0), (0x1FDA, 0x1FDB, 1, 0x1F76), (0x1FE8, 0x1FE9, 1, 0x1FE0),
     (0x1FEA, 0x1FEB, 1, 0x1F7A), (0x1FEC, 0x1FEC, 2, 0x1FE5), (0x1FF8, 0x1FF9, 1, 0x1F78),
     (0x1FFA, 0x1FFB, 1, 0x1F7C), (0x1FFC, 0x1FFC, 2, 0x1FF3), (0x2126, 0x2126, 2, 0x3C9),
     (0x212A, 0x212A, 2, 0x6B), (0x212B, 0x212B, 2, 0xE5), (0x2132, 0x2132, 2, 0x214E),
     (0x2160, 0x216F, 1, 0x2170), (0x2183, 0x2183, 2, 0x2184), (0x24B6, 0x24CF, 1, 0x24D0),
     (0x2C00, 0x2C2F, 1, 0x2C30), (0x2C60, 0x2C60, 2, 0x2C61), (0x2C62, 0x2C62, 2, 0x26B),
     (0x2C63, 0x2C63, 2, 0x1D7D), (0x2C64, 0x2C64, 2, 0x27D), (0x2C67, 0x2C6B, 2, 0x2C68),
     (0x2C6D, 0x2C6D, 2, 0x251), (0x2C6E, 0x2C6E, 2, 0x271), (0x2C6F, 0x2C6F, 2, 0x250),
     (0x2C70, 0x2C70, 2, 0x252), (0x2C72, 0x2C72, 2, 0x2C73), (0x2C75, 0x2C75, 2, 0x2C76),
     (0x2C7E, 0x2C7F, 1, 0x23F), (0x2C80, 0x2CE2, 2, 0x2C81), (0x2CEB, 0x2CED, 2, 0x2CEC),
     (0x2CF2, 0x2CF2, 2, 0x2CF3), (0xA640, 0xA66C, 2, 0xA641), (0xA680, 0xA69A, 2, 0xA681),
     (0xA722, 0xA72E, 2, 0xA723), (0xA732, 0xA76E, 2, 0xA733), (0xA779, 0xA77B, 2, 0xA77A),
     (0xA77D, 0xA77D, 2, 0x1D79), (0xA77E, 0xA786, 2, 0xA77F), (0xA78B, 0xA78B, 2, 0xA78C),
     (0xA78D, 0xA78D, 2, 0x265), (0xA790, 0xA792, 2, 0xA791), (0xA796, 0xA7A8, 2, 0xA797),
     (0xA7AA, 0xA7AA, 2, 0x266), (0xA7AB, 0xA7AB, 2, 0x25C), (0xA7AC, 0xA7AC, 2, 0x261),
     (0xA7AD, 0xA7AD, 2, 0x26C), (0xA7AE, 0xA7AE, 2, 0x26A), (0xA7B0, 0xA7B0, 2, 0x29E),
     (0xA7B1, 0xA7B1, 2, 0x287), (0xA7B2, 0xA7B2, 2, 0x29D), (0xA7B3, 0xA7B3, 2, 0xAB53),
     (0xA7B4, 0xA7C2, 2, 0xA7B5), (0xA7C4, 0xA7C4, 2, 0xA794), (0xA7C5, 0xA7C5, 2, 0x282),
     (0xA7C6, 0xA7C6, 2, 0x1D8E), (0xA7C7, 0xA7C9, 2, 0xA7C8), (0xA7D0, 0xA7D0, 2, 0xA7D1),
     (0xA7D6, 0xA7D8, 2, 0xA7D7), (0xA7F5, 0xA7F5, 2, 0xA7F6), (0xFF21, 0xFF3A, 1, 0xFF41),
     (0x10400, 0x10427, 1, 0x10428), (0x104B0, 0x104D3, 1, 0x104D8),
     (0x10570, 0x1057A, 1, 0x10597), (0x1057C, 0x1058A, 1, 0x105A3),
     (0x1058C, 0x10592, 1, 0x105B3), (0x10594, 0x10595, 1, 0x105BB),
     (0x10C80, 0x10CB2, 1, 0x10CC0), (0x118A0, 0x118BF, 1, 0x118C0),
     (0x16E40, 0x16E5F, 1, 0x16E60), (0x1E900, 0x1E921, 1, 0x1E922)]"

fun rule_lookup :: "case_rule list \<Rightarrow> nat \<Rightarrow> nat option" where
  "rule_lookup [] c = None"
| "rule_lookup ((lo, hi, st, tg) # rs) c =
     (if c < lo then None
      else if c \<le> hi \<and> (c - lo) mod st = 0 then Some (tg + (c - lo))
      else rule_lookup rs c)"

definition Lowercase_Mapping :: "nat \<Rightarrow> nat list" where
  "Lowercase_Mapping c =
     (if c = 0x130 then [0x69, 0x307]
      else case rule_lookup lowercase_rules c of Some d \<Rightarrow> [d] | None \<Rightarrow> [c])"

text \<open>
  The derived properties \<open>Cased\<close> and \<open>Case_Ignorable\<close> (\<open>DerivedCoreProperties.txt\<close>,
  version 14.0.0) as ascending lists of closed ranges.
\<close>

definition cased_ranges :: "(nat \<times> nat) list" where
  "cased_ranges =
    [(0x41, 0x5A), (0x61, 0x7A), (0xAA, 0xAA), (0xB5, 0xB5), (0xBA, 0xBA), (0xC0, 0xD6),
     (0xD8, 0xF6), (0xF8, 0x1BA), (0x1BC, 0x1BF), (0x1C4, 0x293), (0x295, 0x2B8),
     (0x2C0, 0x2C1), (0x2E0, 0x2E4), (0x345, 0x345), (0x370, 0x373), (0x376, 0x377),
     (0x37A, 0x37D), (0x37F, 0x37F), (0x386, 0x386), (0x388, 0x38A), (0x38C, 0x38C),
     (0x38E, 0x3A1), (0x3A3, 0x3F5), (0x3F7, 0x481), (0x48A, 0x52F), (0x531, 0x556),
     (0x560, 0x588), (0x10A0, 0x10C5), (0x10C7, 0x10C7), (0x10CD, 0x10CD), (0x10D0, 0x10FA),
     (0x10FD, 0x10FF), (0x13A0, 0x13F5), (0x13F8, 0x13FD), (0x1C80, 0x1C88), (0x1C90, 0x1CBA),
     (0x1CBD, 0x1CBF), (0x1D00, 0x1DBF), (0x1E00, 0x1F15), (0x1F18, 0x1F1D), (0x1F20, 0x1F45),
     (0x1F48, 0x1F4D), (0x1F50, 0x1F57), (0x1F59, 0x1F59), (0x1F5B, 0x1F5B), (0x1F5D, 0x1F5D),
     (0x1F5F, 0x1F7D), (0x1F80, 0x1FB4), (0x1FB6, 0x1FBC), (0x1FBE, 0x1FBE), (0x1FC2, 0x1FC4),
     (0x1FC6, 0x1FCC), (0x1FD0, 0x1FD3), (0x1FD6, 0x1FDB), (0x1FE0, 0x1FEC), (0x1FF2, 0x1FF4),
     (0x1FF6, 0x1FFC), (0x2071, 0x2071), (0x207F, 0x207F), (0x2090, 0x209C), (0x2102, 0x2102),
     (0x2107, 0x2107), (0x210A, 0x2113), (0x2115, 0x2115), (0x2119, 0x211D), (0x2124, 0x2124),
     (0x2126, 0x2126), (0x2128, 0x2128), (0x212A, 0x212D), (0x212F, 0x2134), (0x2139, 0x2139),
     (0x213C, 0x213F), (0x2145, 0x2149), (0x214E, 0x214E), (0x2160, 0x217F), (0x2183, 0x2184),
     (0x24B6, 0x24E9), (0x2C00, 0x2CE4), (0x2CEB, 0x2CEE), (0x2CF2, 0x2CF3), (0x2D00, 0x2D25),
     (0x2D27, 0x2D27), (0x2D2D, 0x2D2D), (0xA640, 0xA66D), (0xA680, 0xA69D), (0xA722, 0xA787),
     (0xA78B, 0xA78E), (0xA790, 0xA7CA), (0xA7D0, 0xA7D1), (0xA7D3, 0xA7D3), (0xA7D5, 0xA7D9),
     (0xA7F5, 0xA7F6), (0xA7F8, 0xA7FA), (0xAB30, 0xAB5A), (0xAB5C, 0xAB68), (0xAB70, 0xABBF),
     (0xFB00, 0xFB06), (0xFB13, 0xFB17), (0xFF21, 0xFF3A), (0xFF41, 0xFF5A),
     (0x10400, 0x1044F), (0x104B0, 0x104D3), (0x104D8, 0x104FB), (0x10570, 0x1057A),
     (0x1057C, 0x1058A), (0x1058C, 0x10592), (0x10594, 0x10595), (0x10597, 0x105A1),
     (0x105A3, 0x105B1), (0x105B3, 0x105B9), (0x105BB, 0x105BC), (0x10780, 0x10780),
     (0x10783, 0x10785), (0x10787, 0x107B0), (0x107B2, 0x107BA), (0x10C80, 0x10CB2),
     (0x10CC0, 0x10CF2), (0x118A0, 0x118DF), (0x16E40, 0x16E7F), (0x1D400, 0x1D454),
     (0x1D456, 0x1D49C), (0x1D49E, 0x1D49F), (0x1D4A2, 0x1D4A2), (0x1D4A5, 0x1D4A6),
     (0x1D4A9, 0x1D4AC), (0x1D4AE, 0x1D4B9), (0x1D4BB, 0x1D4BB), (0x1D4BD, 0x1D4C3),
     (0x1D4C5, 0x1D505), (0x1D507, 0x1D50A), (0x1D50D, 0x1D514), (0x1D516, 0x1D51C),
     (0x1D51E, 0x1D539), (0x1D53B, 0x1D53E), (0x1D540, 0x1D544), (0x1D546, 0x1D546),
     (0x1D54A, 0x1D550), (0x1D552, 0x1D6A5), (0x1D6A8, 0x1D6C0), (0x1D6C2, 0x1D6DA),
     (0x1D6DC, 0x1D6FA), (0x1D6FC, 0x1D714), (0x1D716, 0x1D734), (0x1D736, 0x1D74E),
     (0x1D750, 0x1D76E), (0x1D770, 0x1D788), (0x1D78A, 0x1D7A8), (0x1D7AA, 0x1D7C2),
     (0x1D7C4, 0x1D7CB), (0x1DF00, 0x1DF09), (0x1DF0B, 0x1DF1E), (0x1E900, 0x1E943),
     (0x1F130, 0x1F149), (0x1F150, 0x1F169), (0x1F170, 0x1F189)]"

definition case_ignorable_ranges :: "(nat \<times> nat) list" where
  "case_ignorable_ranges =
    [(0x27, 0x27), (0x2E, 0x2E), (0x3A, 0x3A), (0x5E, 0x5E), (0x60, 0x60), (0xA8, 0xA8),
     (0xAD, 0xAD), (0xAF, 0xAF), (0xB4, 0xB4), (0xB7, 0xB8), (0x2B0, 0x36F), (0x374, 0x375),
     (0x37A, 0x37A), (0x384, 0x385), (0x387, 0x387), (0x483, 0x489), (0x559, 0x559),
     (0x55F, 0x55F), (0x591, 0x5BD), (0x5BF, 0x5BF), (0x5C1, 0x5C2), (0x5C4, 0x5C5),
     (0x5C7, 0x5C7), (0x5F4, 0x5F4), (0x600, 0x605), (0x610, 0x61A), (0x61C, 0x61C),
     (0x640, 0x640), (0x64B, 0x65F), (0x670, 0x670), (0x6D6, 0x6DD), (0x6DF, 0x6E8),
     (0x6EA, 0x6ED), (0x70F, 0x70F), (0x711, 0x711), (0x730, 0x74A), (0x7A6, 0x7B0),
     (0x7EB, 0x7F5), (0x7FA, 0x7FA), (0x7FD, 0x7FD), (0x816, 0x82D), (0x859, 0x85B),
     (0x888, 0x888), (0x890, 0x891), (0x898, 0x89F), (0x8C9, 0x902), (0x93A, 0x93A),
     (0x93C, 0x93C), (0x941, 0x948), (0x94D, 0x94D), (0x951, 0x957), (0x962, 0x963),
     (0x971, 0x971), (0x981, 0x981), (0x9BC, 0x9BC), (0x9C1, 0x9C4), (0x9CD, 0x9CD),
     (0x9E2, 0x9E3), (0x9FE, 0x9FE), (0xA01, 0xA02), (0xA3C, 0xA3C), (0xA41, 0xA42),
     (0xA47, 0xA48), (0xA4B, 0xA4D), (0xA51, 0xA51), (0xA70, 0xA71), (0xA75, 0xA75),
     (0xA81, 0xA82), (0xABC, 0xABC), (0xAC1, 0xAC5), (0xAC7, 0xAC8), (0xACD, 0xACD),
     (0xAE2, 0xAE3), (0xAFA, 0xAFF), (0xB01, 0xB01), (0xB3C, 0xB3C), (0xB3F, 0xB3F),
     (0xB41, 0xB44), (0xB4D, 0xB4D), (0xB55, 0xB56), (0xB62, 0xB63), (0xB82, 0xB82),
     (0xBC0, 0xBC0), (0xBCD, 0xBCD), (0xC00, 0xC00), (0xC04, 0xC04), (0xC3C, 0xC3C),
     (0xC3E, 0xC40), (0xC46, 0xC48), (0xC4A, 0xC4D), (0xC55, 0xC56), (0xC62, 0xC63),
     (0xC81, 0xC81), (0xCBC, 0xCBC), (0xCBF, 0xCBF), (0xCC6, 0xCC6), (0xCCC, 0xCCD),
     (0xCE2, 0xCE3), (0xD00, 0xD01), (0xD3B, 0xD3C), (0xD41, 0xD44), (0xD4D, 0xD4D),
     (0xD62, 0xD63), (0xD81, 0xD81), (0xDCA, 0xDCA), (0xDD2, 0xDD4), (0xDD6, 0xDD6),
     (0xE31, 0xE31), (0xE34, 0xE3A), (0xE46, 0xE4E), (0xEB1, 0xEB1), (0xEB4, 0xEBC),
     (0xEC6, 0xEC6), (0xEC8, 0xECD), (0xF18, 0xF19), (0xF35, 0xF35), (0xF37, 0xF37),
     (0xF39, 0xF39), (0xF71, 0xF7E), (0xF80, 0xF84), (0xF86, 0xF87), (0xF8D, 0xF97),
     (0xF99, 0xFBC), (0xFC6, 0xFC6), (0x102D, 0x1030), (0x1032, 0x1037), (0x1039, 0x103A),
     (0x103D, 0x103E), (0x1058, 0x1059), (0x105E, 0x1060), (0x1071, 0x1074), (0x1082, 0x1082),
     (0x1085, 0x1086), (0x108D, 0x108D), (0x109D, 0x109D), (0x10FC, 0x10FC), (0x135D, 0x135F),
     (0x1712, 0x1714), (0x1732, 0x1733), (0x1752, 0x1753), (0x1772, 0x1773), (0x17B4, 0x17B5),
     (0x17B7, 0x17BD), (0x17C6, 0x17C6), (0x17C9, 0x17D3), (0x17D7, 0x17D7), (0x17DD, 0x17DD),
     (0x180B, 0x180F), (0x1843, 0x1843), (0x1885, 0x1886), (0x18A9, 0x18A9), (0x1920, 0x1922),
     (0x1927, 0x1928), (0x1932, 0x1932), (0x1939, 0x193B), (0x1A17, 0x1A18), (0x1A1B, 0x1A1B),
     (0x1A56, 0x1A56), (0x1A58, 0x1A5E), (0x1A60, 0x1A60), (0x1A62, 0x1A62), (0x1A65, 0x1A6C),
     (0x1A73, 0x1A7C), (0x1A7F, 0x1A7F), (0x1AA7, 0x1AA7), (0x1AB0, 0x1ACE), (0x1B00, 0x1B03),
     (0x1B34, 0x1B34), (0x1B36, 0x1B3A), (0x1B3C, 0x1B3C), (0x1B42, 0x1B42), (0x1B6B, 0x1B73),
     (0x1B80, 0x1B81), (0x1BA2, 0x1BA5), (0x1BA8, 0x1BA9), (0x1BAB, 0x1BAD), (0x1BE6, 0x1BE6),
     (0x1BE8, 0x1BE9), (0x1BED, 0x1BED), (0x1BEF, 0x1BF1), (0x1C2C, 0x1C33), (0x1C36, 0x1C37),
     (0x1C78, 0x1C7D), (0x1CD0, 0x1CD2), (0x1CD4, 0x1CE0), (0x1CE2, 0x1CE8), (0x1CED, 0x1CED),
     (0x1CF4, 0x1CF4), (0x1CF8, 0x1CF9), (0x1D2C, 0x1D6A), (0x1D78, 0x1D78), (0x1D9B, 0x1DFF),
     (0x1FBD, 0x1FBD), (0x1FBF, 0x1FC1), (0x1FCD, 0x1FCF), (0x1FDD, 0x1FDF), (0x1FED, 0x1FEF),
     (0x1FFD, 0x1FFE), (0x200B, 0x200F), (0x2018, 0x2019), (0x2024, 0x2024), (0x2027, 0x2027),
     (0x202A, 0x202E), (0x2060, 0x2064), (0x2066, 0x206F), (0x2071, 0x2071), (0x207F, 0x207F),
     (0x2090, 0x209C), (0x20D0, 0x20F0), (0x2C7C, 0x2C7D), (0x2CEF, 0x2CF1), (0x2D6F, 0x2D6F),
     (0x2D7F, 0x2D7F), (0x2DE0, 0x2DFF), (0x2E2F, 0x2E2F), (0x3005, 0x3005), (0x302A, 0x302D),
     (0x3031, 0x3035), (0x303B, 0x303B), (0x3099, 0x309E), (0x30FC, 0x30FE), (0xA015, 0xA015),
     (0xA4F8, 0xA4FD), (0xA60C, 0xA60C), (0xA66F, 0xA672), (0xA674, 0xA67D), (0xA67F, 0xA67F),
     (0xA69C, 0xA69F), (0xA6F0, 0xA6F1), (0xA700, 0xA721), (0xA770, 0xA770), (0xA788, 0xA78A),
     (0xA7F2, 0xA7F4), (0xA7F8, 0xA7F9), (0xA802, 0xA802), (0xA806, 0xA806), (0xA80B, 0xA80B),
     (0xA825, 0xA826), (0xA82C, 0xA82C), (0xA8C4, 0xA8C5), (0xA8E0, 0xA8F1), (0xA8FF, 0xA8FF),
     (0xA926, 0xA92D), (0xA947, 0xA951), (0xA980, 0xA982), (0xA9B3, 0xA9B3), (0xA9B6, 0xA9B9),
     (0xA9BC, 0xA9BD), (0xA9CF, 0xA9CF), (0xA9E5, 0xA9E6), (0xAA29, 0xAA2E), (0xAA31, 0xAA32),
     (0xAA35, 0xAA36), (0xAA43, 0xAA43), (0xAA4C, 0xAA4C), (0xAA70, 0xAA70), (0xAA7C, 0xAA7C),
     (0xAAB0, 0xAAB0), (0xAAB2, 0xAAB4), (0xAAB7, 0xAAB8), (0xAABE, 0xAABF), (0xAAC1, 0xAAC1),
     (0xAADD, 0xAADD), (0xAAEC, 0xAAED), (0xAAF3, 0xAAF4), (0xAAF6, 0xAAF6), (0xAB5B, 0xAB5F),
     (0xAB69, 0xAB6B), (0xABE5, 0xABE5), (0xABE8, 0xABE8), (0xABED, 0xABED), (0xFB1E, 0xFB1E),
     (0xFBB2, 0xFBC2), (0xFE00, 0xFE0F), (0xFE13, 0xFE13), (0xFE20, 0xFE2F), (0xFE52, 0xFE52),
     (0xFE55, 0xFE55), (0xFEFF, 0xFEFF), (0xFF07, 0xFF07), (0xFF0E, 0xFF0E), (0xFF1A, 0xFF1A),
     (0xFF3E, 0xFF3E), (0xFF40, 0xFF40), (0xFF70, 0xFF70), (0xFF9E, 0xFF9F), (0xFFE3, 0xFFE3),
     (0xFFF9, 0xFFFB), (0x101FD, 0x101FD), (0x102E0, 0x102E0), (0x10376, 0x1037A),
     (0x10780, 0x10785), (0x10787, 0x107B0), (0x107B2, 0x107BA), (0x10A01, 0x10A03),
     (0x10A05, 0x10A06), (0x10A0C, 0x10A0F), (0x10A38, 0x10A3A), (0x10A3F, 0x10A3F),
     (0x10AE5, 0x10AE6), (0x10D24, 0x10D27), (0x10EAB, 0x10EAC), (0x10F46, 0x10F50),
     (0x10F82, 0x10F85), (0x11001, 0x11001), (0x11038, 0x11046), (0x11070, 0x11070),
     (0x11073, 0x11074), (0x1107F, 0x11081), (0x110B3, 0x110B6), (0x110B9, 0x110BA),
     (0x110BD, 0x110BD), (0x110C2, 0x110C2), (0x110CD, 0x110CD), (0x11100, 0x11102),
     (0x11127, 0x1112B), (0x1112D, 0x11134), (0x11173, 0x11173), (0x11180, 0x11181),
     (0x111B6, 0x111BE), (0x111C9, 0x111CC), (0x111CF, 0x111CF), (0x1122F, 0x11231),
     (0x11234, 0x11234), (0x11236, 0x11237), (0x1123E, 0x1123E), (0x112DF, 0x112DF),
     (0x112E3, 0x112EA), (0x11300, 0x11301), (0x1133B, 0x1133C), (0x11340, 0x11340),
     (0x11366, 0x1136C), (0x11370, 0x11374), (0x11438, 0x1143F), (0x11442, 0x11444),
     (0x11446, 0x11446), (0x1145E, 0x1145E), (0x114B3, 0x114B8), (0x114BA, 0x114BA),
     (0x114BF, 0x114C0), (0x114C2, 0x114C3), (0x115B2, 0x115B5), (0x115BC, 0x115BD),
     (0x115BF, 0x115C0), (0x115DC, 0x115DD), (0x11633, 0x1163A), (0x1163D, 0x1163D),
     (0x1163F, 0x11640), (0x116AB, 0x116AB), (0x116AD, 0x116AD), (0x116B0, 0x116B5),
     (0x116B7, 0x116B7), (0x1171D, 0x1171F), (0x11722, 0x11725), (0x11727, 0x1172B),
     (0x1182F, 0x11837), (0x11839, 0x1183A), (0x1193B, 0x1193C), (0x1193E, 0x1193E),
     (0x11943, 0x11943), (0x119D4, 0x119D7), (0x119DA, 0x119DB), (0x119E0, 0x119E0),
     (0x11A01, 0x11A0A), (0x11A33, 0x11A38), (0x11A3B, 0x11A3E), (0x11A47, 0x11A47),
     (0x11A51, 0x11A56), (0x11A59, 0x11A5B), (0x11A8A, 0x11A96), (0x11A98, 0x11A99),
     (0x11C30, 0x11C36), (0x11C38, 0x11C3D), (0x11C3F, 0x11C3F), (0x11C92, 0x11CA7),
     (0x11CAA, 0x11CB0), (0x11CB2, 0x11CB3), (0x11CB5, 0x11CB6), (0x11D31, 0x11D36),
     (0x11D3A, 0x11D3A), (0x11D3C, 0x11D3D), (0x11D3F, 0x11D45), (0x11D47, 0x11D47),
     (0x11D90, 0x11D91), (0x11D95, 0x11D95), (0x11D97, 0x11D97), (0x11EF3, 0x11EF4),
     (0x13430, 0x13438), (0x16AF0, 0x16AF4), (0x16B30, 0x16B36), (0x16B40, 0x16B43),
     (0x16F4F, 0x16F4F), (0x16F8F, 0x16F9F), (0x16FE0, 0x16FE1), (0x16FE3, 0x16FE4),
     (0x1AFF0, 0x1AFF3), (0x1AFF5, 0x1AFFB), (0x1AFFD, 0x1AFFE), (0x1BC9D, 0x1BC9E),
     (0x1BCA0, 0x1BCA3), (0x1CF00, 0x1CF2D), (0x1CF30, 0x1CF46), (0x1D167, 0x1D169),
     (0x1D173, 0x1D182), (0x1D185, 0x1D18B), (0x1D1AA, 0x1D1AD), (0x1D242, 0x1D244),
     (0x1DA00, 0x1DA36), (0x1DA3B, 0x1DA6C), (0x1DA75, 0x1DA75), (0x1DA84, 0x1DA84),
     (0x1DA9B, 0x1DA9F), (0x1DAA1, 0x1DAAF), (0x1E000, 0x1E006), (0x1E008, 0x1E018),
     (0x1E01B, 0x1E021), (0x1E023, 0x1E024), (0x1E026, 0x1E02A), (0x1E130, 0x1E13D),
     (0x1E2AE, 0x1E2AE), (0x1E2EC, 0x1E2EF), (0x1E8D0, 0x1E8D6), (0x1E944, 0x1E94B),
     (0x1F3FB, 0x1F3FF), (0xE0001, 0xE0001), (0xE0020, 0xE007F), (0xE0100, 0xE01EF)]"

fun in_ranges :: "(nat \<times> nat) list \<Rightarrow> nat \<Rightarrow> bool" where
  "in_ranges [] c = False"
| "in_ranges ((lo, hi) # rs) c =
     (if c < lo then False else if c \<le> hi then True else in_ranges rs c)"

definition Cased :: "nat \<Rightarrow> bool" where
  "Cased c = in_ranges cased_ranges c"

definition Case_Ignorable :: "nat \<Rightarrow> bool" where
  "Case_Ignorable c = in_ranges case_ignorable_ranges c"

text \<open>
  The condition \<open>Final_Sigma\<close> of \<open>SpecialCasing.txt\<close>, the one context-sensitive rule of
  the locale-independent lowercase conversion: the capital sigma U+03A3 is preceded by
  a cased letter and not followed by one, case-ignorable code points being skipped on
  both sides. \<open>preceding\<close> is the text before the sigma, nearest code point first.
\<close>

fun next_is_cased :: "nat list \<Rightarrow> bool" where
  "next_is_cased [] = False"
| "next_is_cased (c # cs) = (if Case_Ignorable c then next_is_cased cs else Cased c)"

definition Final_Sigma :: "nat list \<Rightarrow> nat list \<Rightarrow> bool" where
  "Final_Sigma preceding following = (next_is_cased preceding \<and> \<not> next_is_cased following)"

fun toLowercase_ctx :: "nat list \<Rightarrow> nat list \<Rightarrow> nat list" where
  "toLowercase_ctx preceding [] = []"
| "toLowercase_ctx preceding (c # following) =
     (if c = 0x3A3 then [if Final_Sigma preceding following then 0x3C2 else 0x3C3]
      else Lowercase_Mapping c) @ toLowercase_ctx (c # preceding) following"

text \<open>\<open>toLowercase\<close> of the Unicode Default Case Conversion, on a code point sequence.\<close>

definition toLowercase :: "nat list \<Rightarrow> nat list" where
  "toLowercase cps = toLowercase_ctx [] cps"

text \<open>\<open>String.prototype.toLowerCase\<close>.\<close>

definition toLowerCase :: "jsstring \<Rightarrow> jsstring" where
  "toLowerCase S = CodePointsToString (toLowercase (StringToCodePoints S))"

subsection \<open>Regular-expression replacement and trimming\<close>

text \<open>
  \<open>s.replace(/[class]/g, r)\<close> replaces every element of the class by \<open>r\<close>;
  \<open>s.replace(/[class]+/g, r)\<close> replaces every maximal run of elements of the class by
  \<open>r\<close> (the flag says whether the previous element was in the class).
\<close>

definition replace_each :: "('a \<Rightarrow> bool) \<Rightarrow> 'a list \<Rightarrow> 'a list \<Rightarrow> 'a list" where
  "replace_each P r s = concat (map (\<lambda>u. if P u then r else [u]) s)"

fun replace_runs :: "('a \<Rightarrow> bool) \<Rightarrow> 'a list \<Rightarrow> bool \<Rightarrow> 'a list \<Rightarrow> 'a list" where
  "replace_runs P r in_run [] = []"
| "replace_runs P r in_run (u # s) =
     (if P u then (if in_run then [] else r) @ replace_runs P r True s
      else u # replace_runs P r False s)"

definition trim_of :: "('a \<Rightarrow> bool) \<Rightarrow> 'a list \<Rightarrow> 'a list" where
  "trim_of P s = rev (dropWhile P (rev (dropWhile P s)))"

text \<open>
  The class \<open>\s\<close> of a regular expression without the \<open>u\<close> flag, which is also what
  \<open>trim\<close> removes: \<open>WhiteSpace\<close> (TAB, VT, FF, U+FEFF and the category Zs) and
  \<open>LineTerminator\<close> (LF, CR, U+2028, U+2029).
\<close>

definition ws_cp :: "nat \<Rightarrow> bool" where
  "ws_cp c =
     ((0x9 \<le> c \<and> c \<le> 0xD) \<or> c = 0x20 \<or> c = 0xA0 \<or> c = 0x1680 \<or>
      (0x2000 \<le> c \<and> c \<le> 0x200A) \<or> c = 0x2028 \<or> c = 0x2029 \<or> c = 0x202F \<or>
      c = 0x205F \<or> c = 0x3000 \<or> c = 0xFEFF)"

definition is_white_space :: "code_unit \<Rightarrow> bool" where
  "is_white_space u = ws_cp (unat u)"

text \<open>
  The class of \<open>compareAnswers\<close>: full stop, comma, fullwidth comma, ideographic full
  stop, fullwidth exclamation mark, fullwidth question mark, exclamation mark,
  question mark.
\<close>

definition punct_cp :: "nat \<Rightarrow> bool" where
  "punct_cp c =
     (c = 0x2E \<or> c = 0x2C \<or> c = 0xFF0C \<or> c = 0x3002 \<or> c = 0xFF01 \<or> c = 0xFF1F \<or>
      c = 0x21 \<or> c = 0x3F)"

definition is_punctuation :: "code_unit \<Rightarrow> bool" where
  "is_punctuation u = punct_cp (unat u)"

definition trim :: "jsstring \<Rightarrow> jsstring" where
  "trim s = trim_of is_white_space s"

section \<open>Answer comparison\<close>

text \<open>
  The arrow function \<open>normalize\<close> of \<open>compareAnswers\<close>: \<open>toLowerCase()\<close>, then
  \<open>replace\<close> of every element of the punctuation class by the empty string, then \<open>replace\<close> of every run of \<open>\s\<close> by one space, then
  \<open>trim()\<close>.
\<close>

definition normalize :: "jsstring \<Rightarrow> jsstring" where
  "normalize text =
     trim (replace_runs is_white_space [0x20] False
       (replace_each is_punctuation [] (toLowerCase text)))"

definition compareAnswers :: "jsstring \<Rightarrow> jsstring \<Rightarrow> bool" where
  "compareAnswers userAnswer correctAnswer = (normalize userAnswer = normalize correctAnswer)"

section \<open>Data model\<close>

text \<open>
  A lesson object as \<open>showLesson\<close>, \<open>playAudio\<close> and \<open>checkAnswer\<close> read it.
  \<open>french\<close>, \<open>french_audio_file\<close> and \<open>source\<close> may be absent (\<open>undefined\<close>).
  The field \<open>id\<close> of the source is \<open>lesson_id\<close> here.
\<close>

record lesson =
  lesson_id :: nat
  chinese :: jsstring
  pinyin :: jsstring
  literal :: jsstring
  english :: jsstring
  french :: "jsstring option"
  audio_file :: jsstring
  french_audio_file :: "jsstring option"
  source :: "jsstring option"

text \<open>Truthiness of an optional string: \<open>undefined\<close> and \<open>''\<close> are falsy.\<close>

definition truthy :: "jsstring option \<Rightarrow> bool" where
  "truthy v = (case v of None \<Rightarrow> False | Some t \<Rightarrow> t \<noteq> [])"

text \<open>
  An \<open>Audio\<close> object: its source, the \<open>paused\<close> and \<open>ended\<close> attributes, the
  playback position (an abstract clock; only the assignment of 0 matters) and the
  buttons whose \<open>ended\<close> listener has been attached to it.
\<close>

datatype button = PlayAudioBtn | PlayFrenchBtn

record audio =
  src :: jsstring
  paused :: bool
  ended :: bool
  currentTime :: nat
  error_listener :: bool
  ended_listeners :: "button list"

text \<open>
  A suspended call of \<open>playAudio\<close> or \<open>playFrenchAudio\<close>: waiting for the \<open>HEAD\<close>
  request or for the promise of \<open>play()\<close>. The flag says that \<open>playPracticeAudio\<close>
  awaits the call.
\<close>

datatype task = Awaiting_fetch button bool | Awaiting_play button bool

text \<open>
  The content of \<open>feedbackArea.innerHTML\<close>: empty, or one of the three templates
  of \<open>showCorrectFeedback\<close> (headline "Correct!"), \<open>showIncorrectFeedback\<close>
  (headline "Not quite right", then the user's answer and the correct answer) and
  \<open>showAnswer\<close> (headline "Answer shown", then the correct answer).
\<close>

datatype feedback_html =
    No_Feedback
  | Correct_Feedback
  | Incorrect_Feedback jsstring jsstring
  | Answer_Shown jsstring

text \<open>
  The application object together with the part of the document it reads and writes.
  \<open>completedLessons\<close> is a JavaScript \<open>Set\<close>: its elements in insertion order.
  \<open>audios\<close> is the store of the \<open>Audio\<close> objects created so far; \<open>currentAudio\<close>
  refers into it. \<open>notifications\<close> are the messages passed to \<open>showNotification\<close>.
  \<open>tasks\<close> are the suspended asynchronous calls. The width of \<open>progressFill\<close> (a
  floating-point percentage) and the \<open>fade-in\<close> class (removed by a timer) are not part
  of the model.
\<close>

record app =
  lessons :: "lesson list"
  currentLessonIndex :: int
  currentLesson :: "lesson option"
  completedLessons :: "nat list"
  currentAudio :: "nat option"
  audios :: "audio list"
  notifications :: "jsstring list"
  tasks :: "task list"
  lessonNumber_text :: "jsstring \<times> nat"
  chineseText_text :: jsstring
  pinyinText_text :: jsstring
  literalText_text :: jsstring
  englishText_text :: jsstring
  frenchText_text :: jsstring
  frenchRow_shown :: bool
  playFrenchBtn_shown :: bool
  progressText_text :: "int \<times> nat"
  lessonSelect_value :: int
  prevLessonBtn_disabled :: bool
  nextLessonBtn_disabled :: bool
  playAudioBtn_playing :: bool
  playAudioBtn_text :: jsstring
  playAudioBtn_disabled :: bool
  playFrenchBtn_playing :: bool
  playFrenchBtn_text :: jsstring
  playFrenchBtn_disabled :: bool
  studyMode_hidden :: bool
  practiceMode_hidden :: bool
  audioStatus_text :: jsstring
  practicePinyin_checked :: bool
  practiceAnswer_value :: jsstring
  practiceAnswer_className :: jsstring
  feedbackArea_innerHTML :: feedback_html
  feedbackArea_className :: jsstring
  checkAnswerBtn_hidden :: bool
  nextPracticeBtn_hidden :: bool
  completedCount_text :: nat
  totalCount_text :: nat

section \<open>Navigation\<close>

text \<open>
  \<open>showLesson(index)\<close>: returns at once when the index is out of range; otherwise
  sets the cursor and the current lesson and refreshes the study view.
\<close>

definition showLesson :: "int \<Rightarrow> app \<Rightarrow> app" where
  "showLesson index s =
     (if index < 0 \<or> index \<ge> int (length (lessons s)) then s
      else
        let l = lessons s ! nat index;
            sourceLabel = (if truthy (source l) then js ''['' @ the (source l) @ js ''] '' else [])
        in s\<lparr>currentLessonIndex := index,
              currentLesson := Some l,
              lessonNumber_text := (sourceLabel, lesson_id l),
              chineseText_text := chinese l,
              pinyinText_text := pinyin l,
              literalText_text := literal l,
              englishText_text := english l,
              frenchText_text := (if truthy (french l) then the (french l) else frenchText_text s),
              frenchRow_shown := truthy (french l),
              playFrenchBtn_shown := truthy (french l),
              progressText_text := (index + 1, length (lessons s)),
              lessonSelect_value := index,
              prevLessonBtn_disabled := (index = 0),
              nextLessonBtn_disabled := (index = int (length (lessons s)) - 1)\<rparr>)"

definition previousLesson :: "app \<Rightarrow> app" where
  "previousLesson s =
     (if currentLessonIndex s > 0 then showLesson (currentLessonIndex s - 1) s else s)"

definition nextLesson :: "app \<Rightarrow> app" where
  "nextLesson s =
     (if currentLessonIndex s < int (length (lessons s)) - 1
      then showLesson (currentLessonIndex s + 1) s else s)"

text \<open>The cursor points into the lesson store and the current lesson is the one under it.\<close>

definition cursor_ok :: "app \<Rightarrow> bool" where
  "cursor_ok s =
     (0 \<le> currentLessonIndex s \<and> currentLessonIndex s < int (length (lessons s)) \<and>
      currentLesson s = Some (lessons s ! nat (currentLessonIndex s)))"

text \<open>\<open>getSampleLessons()\<close>: the three built-in records.\<close>

definition sample_lesson_1 :: lesson where
  "sample_lesson_1 =
     \<lparr>lesson_id = 1,
      chinese = [0x6211, 0x53EB, 0x4A, 0x61, 0x6D, 0x65, 0x73, 0xFF0C, 0x6211, 0x662F,
                 0x82F1, 0x56FD, 0x4EBA, 0x3002],
      pinyin = [0x57, 0x1D2, 0x20, 0x6A, 0x69, 0xE0, 0x6F, 0x20, 0x4A, 0x61, 0x6D, 0x65,
                0x73, 0x2C, 0x20, 0x77, 0x1D2, 0x20, 0x73, 0x68, 0xEC, 0x20, 0x59, 0x12B,
                0x6E, 0x67, 0x67, 0x75, 0xF3, 0x20, 0x72, 0xE9, 0x6E, 0x2E],
      literal = js ''I called James, I am England person.'',
      english = js ''My name is James, I am British.'',
      french = None,
      audio_file = js ''lesson_01.mp3'',
      french_audio_file = None,
      source = None\<rparr>"

definition sample_lesson_2 :: lesson where
  "sample_lesson_2 =
     \<lparr>lesson_id = 2,
      chinese = [0x6211, 0x662F, 0x5750, 0x98DE, 0x673A, 0x6765, 0x7684, 0x4E0A, 0x6D77,
                 0x3002],
      pinyin = [0x57, 0x1D2, 0x20, 0x73, 0x68, 0xEC, 0x20, 0x7A, 0x75, 0xF2, 0x20, 0x66,
                0x113, 0x69, 0x6A, 0x12B, 0x20, 0x6C, 0xE1, 0x69, 0x20, 0x64, 0x65, 0x20,
                0x53, 0x68, 0xE0, 0x6E, 0x67, 0x68, 0x1CE, 0x69, 0x2E],
      literal = js ''I am sit airplane come [particle] Shanghai.'',
      english = js ''I came to Shanghai by airplane.'',
      french = None,
      audio_file = js ''lesson_02.mp3'',
      french_audio_file = None,
      source = None\<rparr>"

definition sample_lesson_3 :: lesson where
  "sample_lesson_3 =
     \<lparr>lesson_id = 3,
      chinese = [0x6211, 0x4ECE, 0x4ECA, 0x5E74, 0x4E8C, 0x6708, 0x5F00, 0x59CB, 0x5728,
                 0x4E0A, 0x6D77, 0x5DE5, 0x4F5C, 0x3002],
      pinyin = [0x57, 0x1D2, 0x20, 0x63, 0xF3, 0x6E, 0x67, 0x20, 0x6A, 0x12B, 0x6E, 0x6E,
                0x69, 0xE1, 0x6E, 0x20, 0xE8, 0x72, 0x79, 0x75, 0xE8, 0x20, 0x6B, 0x101,
                0x69, 0x73, 0x68, 0x1D0, 0x20, 0x7A, 0xE0, 0x69, 0x20, 0x53, 0x68, 0xE0,
                0x6E, 0x67, 0x68, 0x1CE, 0x69, 0x20, 0x67, 0x14D, 0x6E, 0x67, 0x7A, 0x75,
                0xF2, 0x2E],
      literal = js ''I from this-year February start at Shanghai work.'',
      english = js ''I started working in Shanghai in February this year.'',
      french = None,
      audio_file = js ''lesson_03.mp3'',
      french_audio_file = None,
      source = None\<rparr>"

definition getSampleLessons :: "lesson list" where
  "getSampleLessons = [sample_lesson_1, sample_lesson_2, sample_lesson_3]"

section \<open>Practice mode\<close>

definition showNotification :: "jsstring \<Rightarrow> app \<Rightarrow> app" where
  "showNotification message s = s\<lparr>notifications := notifications s @ [message]\<rparr>"

definition exitPracticeMode :: "app \<Rightarrow> app" where
  "exitPracticeMode s = s\<lparr>practiceMode_hidden := True, studyMode_hidden := False\<rparr>"

definition resetPractice :: "app \<Rightarrow> app" where
  "resetPractice s =
     s\<lparr>practiceAnswer_value := [],
       practiceAnswer_className := [],
       feedbackArea_innerHTML := No_Feedback,
       feedbackArea_className := js ''feedback-area'',
       checkAnswerBtn_hidden := False,
       nextPracticeBtn_hidden := True,
       audioStatus_text := js ''Click to play audio''\<rparr>"

definition enterPracticeMode :: "app \<Rightarrow> app" where
  "enterPracticeMode s = resetPractice (s\<lparr>studyMode_hidden := True, practiceMode_hidden := False\<rparr>)"

text \<open>\<open>Set.prototype.add\<close> and \<open>size\<close>.\<close>

definition Set_add :: "'a \<Rightarrow> 'a list \<Rightarrow> 'a list" where
  "Set_add x xs = (if x \<in> set xs then xs else xs @ [x])"

definition Set_size :: "'a list \<Rightarrow> nat" where
  "Set_size xs = length xs"

definition updateStats :: "app \<Rightarrow> app" where
  "updateStats s = s\<lparr>completedCount_text := Set_size (completedLessons s)\<rparr>"

definition showCorrectFeedback :: "app \<Rightarrow> app" where
  "showCorrectFeedback s =
     s\<lparr>feedbackArea_className := js ''feedback-area feedback-correct'',
       feedbackArea_innerHTML := Correct_Feedback,
       practiceAnswer_className := js ''correct'',
       checkAnswerBtn_hidden := True,
       nextPracticeBtn_hidden := False\<rparr>"

definition showIncorrectFeedback :: "jsstring \<Rightarrow> jsstring \<Rightarrow> app \<Rightarrow> app" where
  "showIncorrectFeedback userAnswer correctAnswer s =
     s\<lparr>feedbackArea_className := js ''feedback-area feedback-incorrect'',
       feedbackArea_innerHTML := Incorrect_Feedback userAnswer correctAnswer,
       practiceAnswer_className := js ''incorrect''\<rparr>"

text \<open>
  Reading \<open>pinyin\<close> or \<open>chinese\<close> of \<open>this.currentLesson\<close> throws a \<open>TypeError\<close> while
  the current lesson is still \<open>null\<close>.
\<close>

datatype js_error = TypeError

definition checkAnswer :: "app \<Rightarrow> js_error + app" where
  "checkAnswer s =
     (let userAnswer = trim (practiceAnswer_value s) in
      if userAnswer = [] then Inr (showNotification (js ''Please enter your answer first.'') s)
      else
        case currentLesson s of
          None \<Rightarrow> Inl TypeError
        | Some l \<Rightarrow>
            let correctAnswer = (if practicePinyin_checked s then pinyin l else chinese l) in
            if compareAnswers userAnswer correctAnswer
            then
              let s1 = showCorrectFeedback s;
                  s2 = s1\<lparr>completedLessons := Set_add (lesson_id l) (completedLessons s1)\<rparr>
              in Inr (updateStats s2)
            else Inr (showIncorrectFeedback userAnswer correctAnswer s))"

definition showAnswer :: "app \<Rightarrow> js_error + app" where
  "showAnswer s =
     (case currentLesson s of
        None \<Rightarrow> Inl TypeError
      | Some l \<Rightarrow>
          let correctAnswer = (if practicePinyin_checked s then pinyin l else chinese l) in
          Inr (s\<lparr>practiceAnswer_value := correctAnswer,
                 practiceAnswer_className := js ''correct'',
                 feedbackArea_className := js ''feedback-area feedback-correct'',
                 feedbackArea_innerHTML := Answer_Shown correctAnswer,
                 checkAnswerBtn_hidden := True,
                 nextPracticeBtn_hidden := False\<rparr>))"

text \<open>The message starts with the emoji U+1F389, a surrogate pair.\<close>

definition congratulations :: jsstring where
  "congratulations =
     [0xD83C, 0xDF89] @ js '' Congratulations! You'' @ [0x27] @ js ''ve completed all lessons!''"

definition nextPracticeLesson :: "app \<Rightarrow> app" where
  "nextPracticeLesson s =
     (if currentLessonIndex s < int (length (lessons s)) - 1
      then resetPractice (showLesson (currentLessonIndex s + 1) s)
      else exitPracticeMode (showNotification congratulations s))"

section \<open>Audio playback\<close>

text \<open>
  \<open>pause()\<close> followed by \<open>currentTime = 0\<close>, as both play functions do with the
  current handle; \<open>play()\<close> (which restarts an ended element from the beginning); and
  \<open>new Audio(audioFile)\<close>, which is paused at first.
\<close>

definition stop_media :: "audio \<Rightarrow> audio" where
  "stop_media a = a\<lparr>paused := True, currentTime := 0, ended := False\<rparr>"

definition play_media :: "audio \<Rightarrow> audio" where
  "play_media a =
     a\<lparr>paused := False, currentTime := (if ended a then 0 else currentTime a), ended := False\<rparr>"

definition new_Audio :: "jsstring \<Rightarrow> audio" where
  "new_Audio audioFile =
     \<lparr>src = audioFile, paused = True, ended = False, currentTime = 0,
      error_listener = False, ended_listeners = []\<rparr>"

text \<open>A handle is active while it is neither paused nor at its end.\<close>

definition active :: "audio \<Rightarrow> bool" where
  "active a = (\<not> paused a \<and> \<not> ended a)"

definition active_count :: "app \<Rightarrow> nat" where
  "active_count s = length (filter active (audios s))"

text \<open>
  The first statements of the \<open>try\<close> block: stop the current audio if there is one,
  then create the new instance and make it the current one.
\<close>

definition stop_current :: "app \<Rightarrow> app" where
  "stop_current s =
     (case currentAudio s of
        None \<Rightarrow> s
      | Some h \<Rightarrow> s\<lparr>audios := (audios s)[h := stop_media (audios s ! h)]\<rparr>)"

definition create_audio :: "audio \<Rightarrow> app \<Rightarrow> app" where
  "create_audio a s = s\<lparr>audios := audios s @ [a], currentAudio := Some (length (audios s))\<rparr>"

definition handleAudioError :: "jsstring \<Rightarrow> app \<Rightarrow> app" where
  "handleAudioError errorMessage s =
     showNotification
       (js ''Audio Error: '' @ errorMessage @ js ''. Check browser console for details.'')
       (s\<lparr>playAudioBtn_playing := False,
          playAudioBtn_text := js ''Audio Error'',
          playAudioBtn_disabled := False\<rparr>)"

text \<open>The \<open>catch\<close> block of \<open>playFrenchAudio\<close>.\<close>

definition frenchAudioError :: "jsstring \<Rightarrow> app \<Rightarrow> app" where
  "frenchAudioError message s =
     showNotification (js ''French Audio Error: '' @ message)
       (s\<lparr>playFrenchBtn_playing := False,
          playFrenchBtn_text := js ''French Audio Error'',
          playFrenchBtn_disabled := False\<rparr>)"

definition audio_failed :: "button \<Rightarrow> jsstring \<Rightarrow> app \<Rightarrow> app" where
  "audio_failed b message s =
     (case b of PlayAudioBtn \<Rightarrow> handleAudioError message s
              | PlayFrenchBtn \<Rightarrow> frenchAudioError message s)"

text \<open>
  The end of an asynchronous call: \<open>playPracticeAudio\<close>, when it awaits the call, goes
  on to set the status line.
\<close>

definition finish :: "bool \<Rightarrow> app \<Rightarrow> app" where
  "finish practice s =
     (if practice then s\<lparr>audioStatus_text := js ''Audio played. Now write what you heard.''\<rparr>
      else s)"

text \<open>\<open>playAudio()\<close> up to \<open>await fetch(audioFile, { method: 'HEAD' })\<close>.\<close>

definition playAudio :: "bool \<Rightarrow> app \<Rightarrow> app" where
  "playAudio practice s =
     (case currentLesson s of
        None \<Rightarrow> finish practice s
      | Some l \<Rightarrow>
          let audioFile = js ''../audio/'' @ audio_file l;
              s1 = create_audio ((new_Audio audioFile)\<lparr>error_listener := True\<rparr>) (stop_current s)
          in s1\<lparr>playAudioBtn_playing := True,
                playAudioBtn_text := js ''Loading...'',
                playAudioBtn_disabled := True,
                tasks := tasks s1 @ [Awaiting_fetch PlayAudioBtn practice]\<rparr>)"

text \<open>\<open>playFrenchAudio()\<close> up to its \<open>await fetch\<close>.\<close>

definition playFrenchAudio :: "app \<Rightarrow> app" where
  "playFrenchAudio s =
     (case currentLesson s of
        None \<Rightarrow> showNotification (js ''No French audio available for this lesson.'') s
      | Some l \<Rightarrow>
          if \<not> truthy (french_audio_file l)
          then showNotification (js ''No French audio available for this lesson.'') s
          else
            let audioFile = js ''../audio/'' @ the (french_audio_file l);
                s1 = create_audio (new_Audio audioFile) (stop_current s)
            in s1\<lparr>playFrenchBtn_playing := True,
                  playFrenchBtn_text := js ''Loading...'',
                  playFrenchBtn_disabled := True,
                  tasks := tasks s1 @ [Awaiting_fetch PlayFrenchBtn False]\<rparr>)"

definition playPracticeAudio :: "app \<Rightarrow> app" where
  "playPracticeAudio s = playAudio True (s\<lparr>audioStatus_text := js ''Playing audio...''\<rparr>)"

text \<open>
  The outcome of the \<open>HEAD\<close> request: a response that is \<open>ok\<close>, a response that is not
  (with its status and status text), or a rejection (with the error's message).
\<close>

datatype fetch_result = Response_ok | Response_not_ok jsstring | Fetch_rejected jsstring

definition set_button_text :: "button \<Rightarrow> jsstring \<Rightarrow> app \<Rightarrow> app" where
  "set_button_text b t s =
     (case b of PlayAudioBtn \<Rightarrow> s\<lparr>playAudioBtn_text := t\<rparr>
              | PlayFrenchBtn \<Rightarrow> s\<lparr>playFrenchBtn_text := t\<rparr>)"

definition not_found_prefix :: "button \<Rightarrow> jsstring" where
  "not_found_prefix b =
     (case b of PlayAudioBtn \<Rightarrow> js ''Audio file not found: ''
              | PlayFrenchBtn \<Rightarrow> js ''French audio file not found: '')"

text \<open>
  The message of the \<open>TypeError\<close> of a call on \<open>null\<close> (the wording is the engine's). A
  suspended call has assigned \<open>this.currentAudio\<close> before, so this case does not arise.
\<close>

definition null_message :: jsstring where
  "null_message = js ''Cannot read properties of null''"

text \<open>
  From the settled \<open>HEAD\<close> request to \<open>await this.currentAudio.play()\<close>: the audio that
  is started is the one \<open>this.currentAudio\<close> refers to at that moment.
\<close>

definition fetch_settled :: "button \<Rightarrow> bool \<Rightarrow> fetch_result \<Rightarrow> app \<Rightarrow> app" where
  "fetch_settled b practice r s =
     (case r of
        Fetch_rejected m \<Rightarrow> finish practice (audio_failed b m s)
      | Response_not_ok st \<Rightarrow> finish practice (audio_failed b (not_found_prefix b @ st) s)
      | Response_ok \<Rightarrow>
          let s1 = set_button_text b (js ''Playing...'') s in
          case currentAudio s1 of
            None \<Rightarrow> finish practice (audio_failed b null_message s1)
          | Some h \<Rightarrow>
              s1\<lparr>audios := (audios s1)[h := play_media (audios s1 ! h)],
                 tasks := tasks s1 @ [Awaiting_play b practice]\<rparr>)"

text \<open>
  From the settled promise of \<open>play()\<close> (\<open>None\<close>: fulfilled; \<open>Some m\<close>: rejected with
  message \<open>m\<close>) to the end of the call: the \<open>ended\<close> listener is attached.
\<close>

definition play_settled :: "button \<Rightarrow> bool \<Rightarrow> jsstring option \<Rightarrow> app \<Rightarrow> app" where
  "play_settled b practice r s =
     (case r of
        Some m \<Rightarrow> finish practice (audio_failed b m s)
      | None \<Rightarrow>
          (case currentAudio s of
             None \<Rightarrow> finish practice (audio_failed b null_message s)
           | Some h \<Rightarrow>
               finish practice
                 (s\<lparr>audios := (audios s)[h := (audios s ! h)
                       \<lparr>ended_listeners := ended_listeners (audios s ! h) @ [b]\<rparr>]\<rparr>)))"

datatype settlement = Fetch_result fetch_result | Play_result "jsstring option"

text \<open>The \<open>k\<close>-th suspended call resumes.\<close>

definition resume :: "nat \<Rightarrow> settlement \<Rightarrow> app \<Rightarrow> app" where
  "resume k r s =
     (if k < length (tasks s)
      then
        let s0 = s\<lparr>tasks := take k (tasks s) @ drop (Suc k) (tasks s)\<rparr> in
        case (tasks s ! k, r) of
          (Awaiting_fetch b practice, Fetch_result fr) \<Rightarrow> fetch_settled b practice fr s0
        | (Awaiting_play b practice, Play_result pr) \<Rightarrow> play_settled b practice pr s0
        | _ \<Rightarrow> s
      else s)"

text \<open>The \<open>ended\<close> listeners and the timers of the error paths reset a button.\<close>

definition reset_button :: "button \<Rightarrow> app \<Rightarrow> app" where
  "reset_button b s =
     (case b of
        PlayAudioBtn \<Rightarrow>
          s\<lparr>playAudioBtn_playing := False, playAudioBtn_text := js ''Play Chinese'',
            playAudioBtn_disabled := False\<rparr>
      | PlayFrenchBtn \<Rightarrow>
          s\<lparr>playFrenchBtn_playing := False, playFrenchBtn_text := js ''Play French'',
            playFrenchBtn_disabled := False\<rparr>)"

text \<open>An active audio reaches its end (at position \<open>t\<close>); its \<open>ended\<close> listeners run.\<close>

definition media_ended :: "nat \<Rightarrow> nat \<Rightarrow> app \<Rightarrow> app" where
  "media_ended h t s =
     (if h < length (audios s) \<and> active (audios s ! h)
      then fold reset_button (ended_listeners (audios s ! h))
             (s\<lparr>audios := (audios s)[h := (audios s ! h)\<lparr>ended := True, currentTime := t\<rparr>]\<rparr>)
      else s)"

text \<open>
  The \<open>error\<close> event of an audio created by \<open>playAudio\<close>; \<open>m\<close> is
  \<open>this.currentAudio.error?.message\<close>.
\<close>

definition media_error :: "nat \<Rightarrow> jsstring option \<Rightarrow> app \<Rightarrow> app" where
  "media_error h m s =
     (if h < length (audios s) \<and> error_listener (audios s ! h)
      then handleAudioError
             (js ''Audio failed to load: '' @ (if truthy m then the m else js ''Unknown error'')) s
      else s)"

section \<open>Start-up and events\<close>

text \<open>The fields the constructor sets, on top of the document as it is loaded.\<close>

definition constructor :: "app \<Rightarrow> app" where
  "constructor doc =
     doc\<lparr>lessons := [], currentLessonIndex := 0, currentLesson := None,
         completedLessons := [], currentAudio := None, audios := [], tasks := []\<rparr>"

text \<open>
  \<open>initialize()\<close>, given what \<open>loadLessons\<close> obtained: the \<open>lessons\<close> and
  \<open>total_lessons\<close> of \<open>lessons.json\<close>, or nothing, in which case the sample lessons
  are used.
\<close>

definition loadLessons :: "(lesson list \<times> nat) option \<Rightarrow> app \<Rightarrow> app" where
  "loadLessons data s =
     (case data of
        Some (ls, total_lessons) \<Rightarrow> s\<lparr>lessons := ls, totalCount_text := total_lessons\<rparr>
      | None \<Rightarrow> s\<lparr>lessons := getSampleLessons, totalCount_text := length getSampleLessons\<rparr>)"

definition initialize :: "(lesson list \<times> nat) option \<Rightarrow> app \<Rightarrow> app" where
  "initialize data s = updateStats (showLesson 0 (loadLessons data s))"

text \<open>
  What can happen after start-up: a method is called from an event listener, the user
  edits the answer or chooses the practice type (whose \<open>change\<close> listener is
  \<open>resetPractice\<close>), a suspended call resumes, an audio ends or fails, or the timer of an
  error path fires.
\<close>

datatype action =
    ShowLesson int
  | PlayAudio
  | PlayFrenchAudio
  | PlayPracticeAudio
  | PreviousLesson
  | NextLesson
  | EnterPracticeMode
  | ExitPracticeMode
  | CheckAnswer
  | ShowAnswer
  | NextPracticeLesson
  | Input_answer jsstring
  | Choose_pinyin bool
  | Resume nat settlement
  | Media_ended nat nat
  | Media_error nat "jsstring option"
  | Timer_reset button

text \<open>An error thrown in a listener ends it; both places throw before any assignment.\<close>

definition or_unchanged :: "app \<Rightarrow> js_error + app \<Rightarrow> app" where
  "or_unchanged s r = (case r of Inl e \<Rightarrow> s | Inr s' \<Rightarrow> s')"

fun perform :: "action \<Rightarrow> app \<Rightarrow> app" where
  "perform (ShowLesson i) s = showLesson i s"
| "perform PlayAudio s = playAudio False s"
| "perform PlayFrenchAudio s = playFrenchAudio s"
| "perform PlayPracticeAudio s = playPracticeAudio s"
| "perform PreviousLesson s = previousLesson s"
| "perform NextLesson s = nextLesson s"
| "perform EnterPracticeMode s = enterPracticeMode s"
| "perform ExitPracticeMode s = exitPracticeMode s"
| "perform CheckAnswer s = or_unchanged s (checkAnswer s)"
| "perform ShowAnswer s = or_unchanged s (showAnswer s)"
| "perform NextPracticeLesson s = nextPracticeLesson s"
| "perform (Input_answer t) s = s\<lparr>practiceAnswer_value := t\<rparr>"
| "perform (Choose_pinyin b) s = resetPractice (s\<lparr>practicePinyin_checked := b\<rparr>)"
| "perform (Resume k r) s = resume k r s"
| "perform (Media_ended h t) s = media_ended h t s"
| "perform (Media_error h m) s = media_error h m s"
| "perform (Timer_reset b) s =
     set_button_text b (case b of PlayAudioBtn \<Rightarrow> js ''Play Chinese''
                                | PlayFrenchBtn \<Rightarrow> js ''Play French'') s"

definition run :: "action list \<Rightarrow> app \<Rightarrow> app" where
  "run acts s = fold perform acts s"

text \<open>A document for concrete runs: every text empty, nothing hidden or disabled.\<close>

definition blank_page :: app where
  "blank_page =
     \<lparr>lessons = [], currentLessonIndex = 0, currentLesson = None, completedLessons = [],
      currentAudio = None, audios = [], notifications = [], tasks = [],
      lessonNumber_text = ([], 0), chineseText_text = [], pinyinText_text = [],
      literalText_text = [], englishText_text = [], frenchText_text = [],
      frenchRow_shown = False, playFrenchBtn_shown = False, progressText_text = (0, 0),
      lessonSelect_value = 0, prevLessonBtn_disabled = False, nextLessonBtn_disabled = False,
      playAudioBtn_playing = False, playAudioBtn_text = js ''Play Chinese'',
      playAudioBtn_disabled = False, playFrenchBtn_playing = False,
      playFrenchBtn_text = js ''Play French'', playFrenchBtn_disabled = False,
      studyMode_hidden = False, practiceMode_hidden = True, audioStatus_text = [],
      practicePinyin_checked = True, practiceAnswer_value = [], practiceAnswer_className = [],
      feedbackArea_innerHTML = No_Feedback, feedbackArea_className = js ''feedback-area'',
      checkAnswerBtn_hidden = False, nextPracticeBtn_hidden = True,
      completedCount_text = 0, totalCount_text = 0\<rparr>"

text \<open>The application after a start-up in which \<open>lessons.json\<close> could not be loaded.\<close>

definition sample_app :: app where
  "sample_app = initialize None (constructor blank_page)"

section \<open>Navigation: properties\<close>

lemma showLesson_in_range:
  "0 \<le> i \<Longrightarrow> i < int (length (lessons s)) \<Longrightarrow>
   currentLessonIndex (showLesson i s) = i \<and>
   currentLesson (showLesson i s) = Some (lessons s ! nat i) \<and>
   lessons (showLesson i s) = lessons s \<and>
   completedLessons (showLesson i s) = completedLessons s"
  by (simp add: showLesson_def Let_def)

lemma showLesson_out_of_range:
  "i < 0 \<or> int (length (lessons s)) \<le> i \<Longrightarrow> showLesson i s = s"
  by (auto simp add: showLesson_def)

text \<open>
  C1. For every index within the lesson store, \<open>showLesson\<close> sets the cursor to that
  index and the current lesson to the record at that position; for every index outside
  the store, \<open>showLesson\<close> returns the state as it was (so the cursor and the current
  lesson are unchanged).
\<close>

theorem C1_showLesson:
  "(0 \<le> i \<and> i < int (length (lessons s)) \<longrightarrow>
      currentLessonIndex (showLesson i s) = i \<and>
      currentLesson (showLesson i s) = Some (lessons s ! nat i)) \<and>
   (i < 0 \<or> int (length (lessons s)) \<le> i \<longrightarrow> showLesson i s = s)"
  using showLesson_in_range [of i s] showLesson_out_of_range [of i s] by blast

theorem C1_showLesson_witness:
  "(0::int) \<le> 1 \<and> 1 < int (length (lessons sample_app)) \<and>
   currentLessonIndex (showLesson 1 sample_app) = 1 \<and>
   currentLesson (showLesson 1 sample_app) = Some sample_lesson_2 \<and>
   int (length (lessons sample_app)) \<le> 3 \<and> showLesson 3 sample_app = sample_app"
  using C1_showLesson [of 1 sample_app] C1_showLesson [of 3 sample_app]
  by (simp add: sample_app_def initialize_def loadLessons_def constructor_def
      getSampleLessons_def updateStats_def showLesson_def Let_def)

lemma nextLesson_step:
  "0 \<le> currentLessonIndex s \<Longrightarrow> currentLessonIndex s < int (length (lessons s)) - 1 \<Longrightarrow>
   currentLessonIndex (nextLesson s) = currentLessonIndex s + 1 \<and>
   currentLesson (nextLesson s) = Some (lessons s ! nat (currentLessonIndex s + 1)) \<and>
   lessons (nextLesson s) = lessons s"
  by (simp add: nextLesson_def showLesson_def Let_def)

lemma nextLesson_last:
  "currentLessonIndex s = int (length (lessons s)) - 1 \<Longrightarrow> nextLesson s = s"
  by (simp add: nextLesson_def)

lemma previousLesson_step:
  "0 < currentLessonIndex s \<Longrightarrow> currentLessonIndex s < int (length (lessons s)) \<Longrightarrow>
   currentLessonIndex (previousLesson s) = currentLessonIndex s - 1 \<and>
   currentLesson (previousLesson s) = Some (lessons s ! nat (currentLessonIndex s - 1)) \<and>
   lessons (previousLesson s) = lessons s"
  by (simp add: previousLesson_def showLesson_def Let_def)

lemma previousLesson_first: "currentLessonIndex s = 0 \<Longrightarrow> previousLesson s = s"
  by (simp add: previousLesson_def)

lemma nextLesson_three:
  assumes "length (lessons s) = 3" and "currentLessonIndex s = 0"
  shows "currentLessonIndex (nextLesson (nextLesson s)) = 2 \<and>
         currentLesson (nextLesson (nextLesson s)) = Some (lessons s ! 2) \<and>
         nextLesson (nextLesson (nextLesson s)) = nextLesson (nextLesson s)"
proof -
  have one: "currentLessonIndex (nextLesson s) = 1 \<and> lessons (nextLesson s) = lessons s"
    using nextLesson_step [of s] assms by simp
  then have two: "currentLessonIndex (nextLesson (nextLesson s)) = 2 \<and>
      currentLesson (nextLesson (nextLesson s)) = Some (lessons s ! 2) \<and>
      lessons (nextLesson (nextLesson s)) = lessons s"
    using nextLesson_step [of "nextLesson s"] assms by simp
  then have "nextLesson (nextLesson (nextLesson s)) = nextLesson (nextLesson s)"
    using nextLesson_last [of "nextLesson (nextLesson s)"] assms by simp
  with two show ?thesis by simp
qed

text \<open>
  C2. With the cursor inside the store, \<open>nextLesson\<close> moves it one forward except at
  the last index, where it changes nothing, and \<open>previousLesson\<close> moves it one back
  except at index 0, where it changes nothing; neither wraps around. With three
  records and the cursor at 0, two calls of \<open>nextLesson\<close> reach the third record and a
  third call changes nothing.
\<close>

theorem C2_next_previous:
  assumes "0 \<le> currentLessonIndex s" and "currentLessonIndex s < int (length (lessons s))"
  shows "(currentLessonIndex s < int (length (lessons s)) - 1 \<longrightarrow>
            currentLessonIndex (nextLesson s) = currentLessonIndex s + 1 \<and>
            currentLesson (nextLesson s) = Some (lessons s ! nat (currentLessonIndex s + 1))) \<and>
         (currentLessonIndex s = int (length (lessons s)) - 1 \<longrightarrow> nextLesson s = s) \<and>
         (0 < currentLessonIndex s \<longrightarrow>
            currentLessonIndex (previousLesson s) = currentLessonIndex s - 1 \<and>
            currentLesson (previousLesson s) = Some (lessons s ! nat (currentLessonIndex s - 1))) \<and>
         (currentLessonIndex s = 0 \<longrightarrow> previousLesson s = s) \<and>
         (length (lessons s) = 3 \<and> currentLessonIndex s = 0 \<longrightarrow>
            currentLessonIndex (nextLesson (nextLesson s)) = 2 \<and>
            currentLesson (nextLesson (nextLesson s)) = Some (lessons s ! 2) \<and>
            nextLesson (nextLesson (nextLesson s)) = nextLesson (nextLesson s))"
  using assms nextLesson_step [of s] nextLesson_last [of s] previousLesson_step [of s]
    previousLesson_first [of s] nextLesson_three [of s]
  by blast

lemma sample_app_lessons:
  "lessons sample_app = [sample_lesson_1, sample_lesson_2, sample_lesson_3] \<and>
   currentLessonIndex sample_app = 0 \<and> currentLesson sample_app = Some sample_lesson_1 \<and>
   completedLessons sample_app = []"
  by (simp add: sample_app_def initialize_def loadLessons_def constructor_def
      getSampleLessons_def updateStats_def showLesson_def Let_def)

theorem C2_next_previous_witness:
  "currentLessonIndex sample_app = 0 \<and> length (lessons sample_app) = 3 \<and>
   currentLessonIndex (nextLesson sample_app) = 1 \<and>
   previousLesson sample_app = sample_app \<and>
   currentLesson (nextLesson (nextLesson sample_app)) = Some sample_lesson_3 \<and>
   nextLesson (nextLesson (nextLesson sample_app)) = nextLesson (nextLesson sample_app)"
  using C2_next_previous [of sample_app] sample_app_lessons by simp

end
